theory Spec2Isabelle
  imports Complex_Main "HOL-Library.AList"
begin

section \<open>The protocol viewer of \<^verbatim>\<open>src/app/page.tsx\<close>\<close>

text \<open>
  The repository is one React component, \<^verbatim>\<open>ProtocolViewer\<close>. Its state lives in
  \<^verbatim>\<open>useState\<close> cells; every event handler reads the cells as they were at the last
  render (they are \<^verbatim>\<open>const\<close> bindings of the render's closure) and queues updates
  that take effect together once the handler has returned. A handler is therefore a
  function from the state it was rendered with to the next state, and a read of a cell
  after a \<^verbatim>\<open>set...\<close> call in the same handler still sees the old value.

  The \<^verbatim>\<open>HTMLAudioElement\<close> objects belong to the browser. They are kept in a store
  (\<open>audios\<close>, addressed by creation index), apart from the React cells, because the
  component compares them by identity (\<^verbatim>\<open>a !== audio\<close>) and because an element
  outlives the \<^verbatim>\<open>audioRefs\<close> entry that points at it.
\<close>

subsection \<open>JavaScript numbers\<close>

text \<open>
  A JavaScript number is a double: \<open>NaN\<close>, an infinity (\<open>Inf True\<close> is
  \<^verbatim>\<open>+Infinity\<close>) or a finite double, which is given by the real number it denotes.
  The sign of zero is left out.
\<close>

datatype number = NaN | Inf bool | Fin real

text \<open>Truthiness, as in \<^verbatim>\<open>if (audio.duration)\<close>: \<^verbatim>\<open>NaN\<close> and \<^verbatim>\<open>0\<close> are falsy.\<close>

fun truthy :: "number \<Rightarrow> bool" where
  "truthy NaN = False"
| "truthy (Inf _) = True"
| "truthy (Fin r) = (r \<noteq> 0)"

text \<open>
  Arithmetic on doubles is the platform's, not the repository's. On finite operands an
  operator yields the exact result rounded to a double; the rounding \<open>rnd\<close> (IEEE 754
  round to nearest: a finite double, or an infinity when the exact result is too large)
  is a parameter of the model. The results on \<open>NaN\<close>, on infinities and at a division
  by zero are fixed by the standard and written out.
\<close>

text \<open>The operator \<^verbatim>\<open>-\<close>.\<close>

fun js_sub :: "(real \<Rightarrow> number) \<Rightarrow> number \<Rightarrow> number \<Rightarrow> number" where
  "js_sub rnd NaN _ = NaN"
| "js_sub rnd _ NaN = NaN"
| "js_sub rnd (Inf p) (Inf q) = (if p = q then NaN else Inf p)"
| "js_sub rnd (Inf p) (Fin b) = Inf p"
| "js_sub rnd (Fin a) (Inf q) = Inf (\<not> q)"
| "js_sub rnd (Fin a) (Fin b) = rnd (a - b)"

text \<open>The operator \<^verbatim>\<open>/\<close>.\<close>

fun js_div :: "(real \<Rightarrow> number) \<Rightarrow> number \<Rightarrow> number \<Rightarrow> number" where
  "js_div rnd NaN _ = NaN"
| "js_div rnd _ NaN = NaN"
| "js_div rnd (Inf _) (Inf _) = NaN"
| "js_div rnd (Inf p) (Fin b) = Inf (p = (0 \<le> b))"
| "js_div rnd (Fin a) (Inf _) = Fin 0"
| "js_div rnd (Fin a) (Fin b) =
     (if b = 0 then (if a = 0 then NaN else Inf (0 < a)) else rnd (a / b))"

text \<open>The operator \<^verbatim>\<open>*\<close>.\<close>

fun js_mul :: "(real \<Rightarrow> number) \<Rightarrow> number \<Rightarrow> number \<Rightarrow> number" where
  "js_mul rnd NaN _ = NaN"
| "js_mul rnd _ NaN = NaN"
| "js_mul rnd (Inf p) (Inf q) = Inf (p = q)"
| "js_mul rnd (Inf p) (Fin b) = (if b = 0 then NaN else Inf (p = (0 < b)))"
| "js_mul rnd (Fin a) (Inf q) = (if a = 0 then NaN else Inf (q = (0 < a)))"
| "js_mul rnd (Fin a) (Fin b) = rnd (a * b)"

subsection \<open>Data\<close>

text \<open>
  \<^verbatim>\<open>type User\<close> and the roster \<^verbatim>\<open>users\<close> (lines 41--46 and 115--140). The field
  \<^verbatim>\<open>id\<close> is called \<open>user_id\<close> and \<^verbatim>\<open>name\<close> is called \<open>user_name\<close>.
\<close>

record User =
  user_id :: string
  user_name :: string
  initials :: string
  description :: string

definition users :: "User list" where
  "users =
     [\<lparr>user_id = ''nik'', user_name = ''Nik'', initials = ''N'',
        description = ''33-year-old male, active lifestyle''\<rparr>,
      \<lparr>user_id = ''tyler'', user_name = ''Tyler'', initials = ''T'',
        description = ''Active male, comprehensive data''\<rparr>,
      \<lparr>user_id = ''katie'', user_name = ''Katie'', initials = ''K'',
        description = ''40-year-old female, postpartum''\<rparr>,
      \<lparr>user_id = ''arnav'', user_name = ''Arnav'', initials = ''A'',
        description = ''19-year-old male, vegetarian athlete''\<rparr>]"

text \<open>
  A fetched document. \<^verbatim>\<open>res.json()\<close> returns whatever the file holds; the type
  \<^verbatim>\<open>Protocol\<close> is a compile-time annotation only, so a document is a JSON value.
\<close>

datatype json_value =
    JNull
  | JBool bool
  | JNum real
  | JStr string
  | JArr "json_value list"
  | JObj "(string \<times> json_value) list"

text \<open>
  The part of an \<^verbatim>\<open>HTMLAudioElement\<close> that the component reads or writes.
  \<open>paused\<close> follows the \<^verbatim>\<open>play()\<close> and \<^verbatim>\<open>pause()\<close> calls of the component and
  the end of playback; \<open>duration\<close> is \<open>NaN\<close> until the browser has the metadata;
  \<open>listens_for\<close> is the \<^verbatim>\<open>protocolType\<close> captured by the five listeners that
  \<^verbatim>\<open>handlePlayPause\<close> attaches when it creates the element.
\<close>

record audio_element =
  src :: string
  paused :: bool
  currentTime :: real
  duration :: number
  listens_for :: string

text \<open>\<^verbatim>\<open>new Audio(audioFile)\<close> followed by the \<^verbatim>\<open>addEventListener\<close> calls.\<close>

definition new_Audio :: "string \<Rightarrow> string \<Rightarrow> audio_element" where
  "new_Audio audioFile protocolType =
     \<lparr>src = audioFile, paused = True, currentTime = 0, duration = NaN,
      listens_for = protocolType\<rparr>"

text \<open>
  The \<^verbatim>\<open>useState\<close> cells of lines 143--153 and the store of audio elements.
  \<^verbatim>\<open>audioRefs\<close> is an association list in insertion order, because
  \<^verbatim>\<open>Object.values\<close> walks it; its values are indices into \<open>audios\<close>.
  The cells \<^verbatim>\<open>selectedIntervention\<close> and \<^verbatim>\<open>selectedProtocol\<close> are touched by
  the drill-down handlers only and are not part of the model.
\<close>

record state =
  selectedUser :: User
  protocols :: "json_value list"
  loading :: bool
  error :: "string option"
  playingAudio :: "string option"
  audioRefs :: "(string \<times> nat) list"
  audioProgress :: "string \<rightharpoonup> number"
  audioDuration :: "string \<rightharpoonup> number"
  showUserSelector :: bool
  audios :: "audio_element list"

text \<open>The state of the first render, with Nik (\<^verbatim>\<open>users[0]\<close>) selected.\<close>

definition initial :: state where
  "initial =
     \<lparr>selectedUser = hd users, protocols = [], loading = True, error = None,
      playingAudio = None, audioRefs = [], audioProgress = Map.empty,
      audioDuration = Map.empty, showUserSelector = False, audios = []\<rparr>"

text \<open>
  The playing flag of a category as the render reads it (lines 483 and 488):
  \<^verbatim>\<open>playingAudio === protocol.protocol_type\<close>.
\<close>

definition playing :: "state \<Rightarrow> string \<Rightarrow> bool" where
  "playing s c = (playingAudio s = Some c)"

subsection \<open>The audio playback controller\<close>

text \<open>\<^verbatim>\<open>getAudioFile\<close> (lines 89--100).\<close>

definition getAudioFile :: "string \<Rightarrow> string \<Rightarrow> string" where
  "getAudioFile protocolType userId =
     (if protocolType = ''exercise'' then ''/data/'' @ userId @ ''_exercise.mp3''
      else if protocolType = ''nutrition'' then ''/data/'' @ userId @ ''_nutrition.mp3''
      else if protocolType = ''supplements'' then ''/data/'' @ userId @ ''_supplements.mp3''
      else '''')"

text \<open>\<^verbatim>\<open>a.pause()\<close> and \<^verbatim>\<open>a.play()\<close> on the element with index \<open>a\<close>.\<close>

definition pause :: "nat \<Rightarrow> audio_element list \<Rightarrow> audio_element list" where
  "pause a els = els[a := (els ! a)\<lparr>paused := True\<rparr>]"

definition play :: "nat \<Rightarrow> audio_element list \<Rightarrow> audio_element list" where
  "play a els = els[a := (els ! a)\<lparr>paused := False\<rparr>]"

text \<open>
  Lines 245--253:
  \<^verbatim>\<open>Object.values(audioRefs).forEach(a => { if (a && a !== audio) a.pause() })\<close>.
\<close>

definition pause_others :: "nat \<Rightarrow> (string \<times> nat) list \<Rightarrow> audio_element list \<Rightarrow> audio_element list" where
  "pause_others audio refs els =
     fold (\<lambda>a els'. if a \<noteq> audio then pause a els' else els') (map snd refs) els"

text \<open>
  \<^verbatim>\<open>handlePlayPause\<close> (lines 190--267). \<open>s\<close> is the state of the render whose closure
  the handler belongs to. Line 195 and line 226 both read \<^verbatim>\<open>audioRefs\<close> of that
  render: the \<^verbatim>\<open>setAudioRefs\<close> of line 223 queues the new entry for the next render
  and does not change what line 226 sees. So when the element has just been created,
  \<^verbatim>\<open>audio\<close> is \<^verbatim>\<open>undefined\<close> and the handler returns at line 231.
\<close>

definition handlePlayPause :: "string \<Rightarrow> state \<Rightarrow> state" where
  "handlePlayPause protocolType s =
     (let audioFile = getAudioFile protocolType (user_id (selectedUser s)) in
      if audioFile = '''' then s
      else
        let s1 = (if map_of (audioRefs s) protocolType = None
                  then s\<lparr>audios := audios s @ [new_Audio audioFile protocolType],
                         audioRefs := AList.update protocolType (length (audios s)) (audioRefs s)\<rparr>
                  else s)
        in (case map_of (audioRefs s) protocolType of
              None \<Rightarrow> s1
            | Some audio \<Rightarrow>
                if playingAudio s = Some protocolType
                then s1\<lparr>audios := pause audio (audios s1), playingAudio := None\<rparr>
                else s1\<lparr>audios := play audio (pause_others audio (audioRefs s) (audios s1)),
                        playingAudio := Some protocolType\<rparr>))"

text \<open>
  The listeners attached at lines 199--221. They use only the captured
  \<^verbatim>\<open>protocolType\<close> and \<^verbatim>\<open>audio\<close> and functional updates, so they act on the
  state current when the event fires. \<open>audio\<close> is the element as the listener finds it.
\<close>

definition onEnded :: "string \<Rightarrow> state \<Rightarrow> state" where
  "onEnded protocolType s =
     s\<lparr>playingAudio := None, audioProgress := (audioProgress s)(protocolType \<mapsto> Fin 0)\<rparr>"

definition onPause :: "state \<Rightarrow> state" where
  "onPause s = s\<lparr>playingAudio := None\<rparr>"

definition onLoadedMetadata :: "string \<Rightarrow> audio_element \<Rightarrow> state \<Rightarrow> state" where
  "onLoadedMetadata protocolType audio s =
     s\<lparr>audioDuration := (audioDuration s)(protocolType \<mapsto> duration audio)\<rparr>"

definition onTimeUpdate :: "(real \<Rightarrow> number) \<Rightarrow> string \<Rightarrow> audio_element \<Rightarrow> state \<Rightarrow> state" where
  "onTimeUpdate rnd protocolType audio s =
     (if truthy (duration audio)
      then let progress = js_mul rnd (js_div rnd (Fin (currentTime audio)) (duration audio)) (Fin 100)
           in s\<lparr>audioProgress := (audioProgress s)(protocolType \<mapsto> progress)\<rparr>
      else s)"

text \<open>The \<^verbatim>\<open>error\<close> listener, and the \<^verbatim>\<open>catch\<close> of the promise of \<^verbatim>\<open>audio.play()\<close>.\<close>

definition onError :: "state \<Rightarrow> state" where
  "onError s = s\<lparr>playingAudio := None\<rparr>"

text \<open>
  The click that \<^verbatim>\<open>handleSeek\<close> receives: \<^verbatim>\<open>event.clientX\<close> and, from
  \<^verbatim>\<open>event.currentTarget.getBoundingClientRect()\<close>, \<^verbatim>\<open>left\<close> and \<^verbatim>\<open>width\<close>,
  all of them finite doubles.
\<close>

record mouse_event =
  clientX :: real
  rect_left :: real
  rect_width :: real

text \<open>
  The assignment \<^verbatim>\<open>audio.currentTime = newTime\<close>. The attribute is a (restricted)
  \<^verbatim>\<open>double\<close>: assigning \<^verbatim>\<open>NaN\<close> or an infinity throws a \<^verbatim>\<open>TypeError\<close>, which
  is \<open>None\<close> here.
\<close>

definition set_currentTime :: "nat \<Rightarrow> number \<Rightarrow> audio_element list \<Rightarrow> audio_element list option" where
  "set_currentTime a v els =
     (case v of Fin t \<Rightarrow> Some (els[a := (els ! a)\<lparr>currentTime := t\<rparr>]) | _ \<Rightarrow> None)"

text \<open>
  \<^verbatim>\<open>handleSeek\<close> (lines 269--285). The \<^verbatim>\<open>catch\<close> block only logs, so an exception
  thrown by the assignment leaves the state as it was.
\<close>

definition handleSeek :: "(real \<Rightarrow> number) \<Rightarrow> string \<Rightarrow> mouse_event \<Rightarrow> state \<Rightarrow> state" where
  "handleSeek rnd protocolType event s =
     (case map_of (audioRefs s) protocolType of
        None \<Rightarrow> s
      | Some audio \<Rightarrow>
          if \<not> truthy (duration (audios s ! audio)) then s
          else
            let clickX = js_sub rnd (Fin (clientX event)) (Fin (rect_left event));
                width = Fin (rect_width event);
                percentage = js_div rnd clickX width;
                newTime = js_mul rnd percentage (duration (audios s ! audio))
            in (case set_currentTime audio newTime (audios s) of
                  None \<Rightarrow> s
                | Some els \<Rightarrow>
                    s\<lparr>audios := els,
                      audioProgress := (audioProgress s)(protocolType \<mapsto> js_mul rnd percentage (Fin 100))\<rparr>))"

subsection \<open>Switching the user\<close>

text \<open>The \<^verbatim>\<open>onClick\<close> of a button of the user selector (lines 410--418).\<close>

definition selectUser_onClick :: "User \<Rightarrow> state \<Rightarrow> state" where
  "selectUser_onClick user s =
     s\<lparr>selectedUser := user, showUserSelector := False, playingAudio := None,
       audioRefs := [], audioProgress := Map.empty, audioDuration := Map.empty\<rparr>"

subsection \<open>The protocol loader\<close>

text \<open>
  How a promise settles. A \<^verbatim>\<open>fetch\<close> rejects on a network failure and otherwise
  fulfils with a response; \<^verbatim>\<open>res.json()\<close> rejects when the body does not parse.
\<close>

datatype 'a settled = Fulfilled 'a | Rejected

record response =
  ok :: bool
  json :: "json_value settled"

text \<open>
  \<^verbatim>\<open>Promise.all\<close>. \<open>slots\<close> holds one place per promise of the array, the second
  argument lists the promises (by position) in the order in which they settle. The
  result is \<open>None\<close> while the combined promise is pending; it rejects with the first
  rejection and fulfils, once every place is filled, with the values by position.
\<close>

fun promise_all :: "'a option list \<Rightarrow> (nat \<times> 'a settled) list \<Rightarrow> 'a list settled option" where
  "promise_all slots [] = None"
| "promise_all slots ((i, Rejected) # rest) = Some Rejected"
| "promise_all slots ((i, Fulfilled v) # rest) =
     (let slots' = slots[i := Some v] in
      if list_all (\<lambda>x. x \<noteq> None) slots' then Some (Fulfilled (map the slots'))
      else promise_all slots' rest)"

text \<open>The promises \<open>ps\<close> (given by what each settles to) settling in the order \<open>order\<close>.\<close>

definition settle_in :: "nat list \<Rightarrow> 'a settled list \<Rightarrow> (nat \<times> 'a settled) list" where
  "settle_in order ps = map (\<lambda>i. (i, ps ! i)) (filter (\<lambda>i. i < length ps) order)"

text \<open>The three URLs of lines 162--164, in the order of the array literal.\<close>

definition fetch_urls :: "string \<Rightarrow> string list" where
  "fetch_urls userId =
     [''/data/'' @ userId @ ''_supplements.json'',
      ''/data/'' @ userId @ ''_nutrition.json'',
      ''/data/'' @ userId @ ''_exercise.json'']"

text \<open>
  \<^verbatim>\<open>loadProtocols\<close> (lines 156--185) up to its first \<^verbatim>\<open>await\<close>, and from there
  to its end. \<open>server\<close> says what the \<^verbatim>\<open>fetch\<close> of a URL settles to, \<open>fetchOrder\<close>
  and \<open>jsonOrder\<close> are the orders in which the three fetches and the three
  \<^verbatim>\<open>json()\<close> calls settle. The result is \<open>None\<close> when a promise never settles.
  The \<^verbatim>\<open>catch\<close> and \<^verbatim>\<open>finally\<close> blocks are \<open>load_failed\<close>; on success
  \<^verbatim>\<open>finally\<close> is the update of \<open>loading\<close>.
\<close>

definition loadProtocols_begin :: "state \<Rightarrow> state" where
  "loadProtocols_begin s = s\<lparr>loading := True, error := None\<rparr>"

definition load_failed :: "state \<Rightarrow> state" where
  "load_failed s =
     s\<lparr>error := Some ''Failed to load protocol data. Please refresh the page.'',
       loading := False\<rparr>"

definition loadProtocols_settled ::
  "(string \<Rightarrow> response settled) \<Rightarrow> string \<Rightarrow> nat list \<Rightarrow> nat list \<Rightarrow> state \<Rightarrow> state option" where
  "loadProtocols_settled server userId fetchOrder jsonOrder s =
     (case promise_all [None, None, None] (settle_in fetchOrder (map server (fetch_urls userId))) of
        None \<Rightarrow> None
      | Some Rejected \<Rightarrow> Some (load_failed s)
      | Some (Fulfilled rs) \<Rightarrow>
          (case rs of
             [supplementsRes, nutritionRes, exerciseRes] \<Rightarrow>
               if \<not> ok supplementsRes \<or> \<not> ok nutritionRes \<or> \<not> ok exerciseRes
               then Some (load_failed s)
               else (case promise_all [None, None, None] (settle_in jsonOrder (map json rs)) of
                       None \<Rightarrow> None
                     | Some Rejected \<Rightarrow> Some (load_failed s)
                     | Some (Fulfilled ds) \<Rightarrow>
                         (case ds of
                            [supplements, nutrition, exercise] \<Rightarrow>
                              Some (s\<lparr>protocols := [supplements, nutrition, exercise],
                                      loading := False\<rparr>)
                          | _ \<Rightarrow> None))
           | _ \<Rightarrow> None))"

text \<open>
  What the render shows as protocol cards (line 465):
  \<^verbatim>\<open>!loading && !error && protocols.map(...)\<close>.
\<close>

definition shown_protocols :: "state \<Rightarrow> json_value list" where
  "shown_protocols s = (if \<not> loading s \<and> error s = None then protocols s else [])"

subsection \<open>Events\<close>

text \<open>
  What can happen to the mounted component: a click on a play button, on a progress
  bar, on a user of the selector or on the selector's toggle; an event of an audio
  element (with what the browser has changed on the element before it fires the event:
  the duration at \<^verbatim>\<open>loadedmetadata\<close>, the position at \<^verbatim>\<open>timeupdate\<close>, and
  \<^verbatim>\<open>paused\<close> at the end of playback); the rejection of the promise of \<^verbatim>\<open>play()\<close>;
  and the settling of a load that was started for a user. The effect of line 155 runs
  \<^verbatim>\<open>loadProtocols\<close> when \<^verbatim>\<open>selectedUser\<close> has changed.
\<close>

datatype event =
    PlayPause_click string
  | Seek_click string mouse_event
  | User_click User
  | UserSelector_click
  | Audio_ended nat
  | Audio_pause nat
  | Audio_loadedmetadata nat number
  | Audio_timeupdate nat real
  | Audio_error nat
  | Play_rejected nat
  | Load_settled string "nat list" "nat list"

fun step :: "(real \<Rightarrow> number) \<Rightarrow> (string \<Rightarrow> response settled) \<Rightarrow> event \<Rightarrow> state \<Rightarrow> state" where
  "step rnd server (PlayPause_click c) s = handlePlayPause c s"
| "step rnd server (Seek_click c ev) s = handleSeek rnd c ev s"
| "step rnd server (User_click u) s =
     (if u = selectedUser s then selectUser_onClick u s
      else loadProtocols_begin (selectUser_onClick u s))"
| "step rnd server UserSelector_click s = s\<lparr>showUserSelector := \<not> showUserSelector s\<rparr>"
| "step rnd server (Audio_ended a) s =
     (if a < length (audios s)
      then onEnded (listens_for (audios s ! a))
             (s\<lparr>audios := (audios s)[a := (audios s ! a)\<lparr>paused := True\<rparr>]\<rparr>)
      else s)"
| "step rnd server (Audio_pause a) s = (if a < length (audios s) then onPause s else s)"
| "step rnd server (Audio_loadedmetadata a d) s =
     (if a < length (audios s)
      then let audio = (audios s ! a)\<lparr>duration := d\<rparr>
           in onLoadedMetadata (listens_for audio) audio (s\<lparr>audios := (audios s)[a := audio]\<rparr>)
      else s)"
| "step rnd server (Audio_timeupdate a t) s =
     (if a < length (audios s)
      then let audio = (audios s ! a)\<lparr>currentTime := t\<rparr>
           in onTimeUpdate rnd (listens_for audio) audio (s\<lparr>audios := (audios s)[a := audio]\<rparr>)
      else s)"
| "step rnd server (Audio_error a) s = (if a < length (audios s) then onError s else s)"
| "step rnd server (Play_rejected a) s = (if a < length (audios s) then onError s else s)"
| "step rnd server (Load_settled userId fetchOrder jsonOrder) s =
     (case loadProtocols_settled server userId fetchOrder jsonOrder s of
        None \<Rightarrow> s
      | Some s' \<Rightarrow> s')"

definition run ::
  "(real \<Rightarrow> number) \<Rightarrow> (string \<Rightarrow> response settled) \<Rightarrow> event list \<Rightarrow> state \<Rightarrow> state" where
  "run rnd server evs s = fold (step rnd server) evs s"

text \<open>
  The audio elements that have been started and not stopped since, among all the
  elements created so far, whether \<^verbatim>\<open>audioRefs\<close> still holds them or not.
\<close>

definition sounding :: "state \<Rightarrow> audio_element list" where
  "sounding s = filter (\<lambda>audio. \<not> paused audio) (audios s)"

subsection \<open>Auxiliary notions\<close>

text \<open>
  The invariant of the reference table that the proofs carry along: categories and
  elements of \<^verbatim>\<open>audioRefs\<close> are distinct, every entry points at an element that
  exists, and at most one of these elements is not paused.
\<close>

definition refs_ok :: "state \<Rightarrow> bool" where
  "refs_ok s \<longleftrightarrow>
     distinct (map fst (audioRefs s)) \<and> distinct (map snd (audioRefs s))
     \<and> (\<forall>a \<in> snd ` set (audioRefs s). a < length (audios s))
     \<and> (\<forall>a \<in> snd ` set (audioRefs s). \<forall>b \<in> snd ` set (audioRefs s).
           \<not> paused (audios s ! a) \<and> \<not> paused (audios s ! b) \<longrightarrow> a = b)"

text \<open>Every element created so far is still held by \<^verbatim>\<open>audioRefs\<close>.\<close>

definition all_held :: "state \<Rightarrow> bool" where
  "all_held s \<longleftrightarrow> (\<forall>a < length (audios s). a \<in> snd ` set (audioRefs s))"

definition is_User_click :: "event \<Rightarrow> bool" where
  "is_User_click e = (case e of User_click _ \<Rightarrow> True | _ \<Rightarrow> False)"

text \<open>
  The fraction of the bar at which a click lies, as lines 274--277 compute it
  (\<^verbatim>\<open>percentage\<close>).
\<close>

definition seek_fraction :: "(real \<Rightarrow> number) \<Rightarrow> mouse_event \<Rightarrow> number" where
  "seek_fraction rnd event =
     js_div rnd (js_sub rnd (Fin (clientX event)) (Fin (rect_left event))) (Fin (rect_width event))"



text \<open>
  Examples for the concrete runs below. \<open>static_site\<close> is a server on which every
  file exists, the document at a URL being the JSON string of that URL. \<open>example_site\<close>
  holds the three protocol documents of Nik and of Tyler, each with the fields of
  \<^verbatim>\<open>type Protocol\<close> and no interventions, and answers any other URL with a response
  that is not \<^verbatim>\<open>ok\<close>. \<open>exact\<close> is a rounding that leaves a result as it is. It
  gives what the doubles give in the runs below: the results computed there (0.5, 0.25,
  25, 50, 100) are doubles, except for the quotient 194 / 200, whose product with 100
  the doubles round to 97 as well.
\<close>

definition static_site :: "string \<Rightarrow> response settled" where
  "static_site url = Fulfilled \<lparr>ok = True, json = Fulfilled (JStr url)\<rparr>"

definition protocol_document :: "string \<Rightarrow> string \<Rightarrow> json_value" where
  "protocol_document protocol_type title =
     JObj [(''protocol_type'', JStr protocol_type), (''title'', JStr title),
           (''interventions'', JArr []), (''total_interventions'', JNum 0)]"

definition nik_protocols :: "json_value list" where
  "nik_protocols =
     [protocol_document ''supplements'' ''Supplements for Nik'',
      protocol_document ''nutrition'' ''Nutrition for Nik'',
      protocol_document ''exercise'' ''Exercise for Nik'']"

definition tyler_protocols :: "json_value list" where
  "tyler_protocols =
     [protocol_document ''supplements'' ''Supplements for Tyler'',
      protocol_document ''nutrition'' ''Nutrition for Tyler'',
      protocol_document ''exercise'' ''Exercise for Tyler'']"

definition example_site :: "string \<Rightarrow> response settled" where
  "example_site url =
     (case map_of (zip (fetch_urls ''nik'' @ fetch_urls ''tyler'') (nik_protocols @ tyler_protocols)) url of
        Some document \<Rightarrow> Fulfilled \<lparr>ok = True, json = Fulfilled document\<rparr>
      | None \<Rightarrow> Fulfilled \<lparr>ok = False, json = Rejected\<rparr>)"

definition exact :: "real \<Rightarrow> number" where
  "exact x = Fin x"

section \<open>Properties\<close>

subsection \<open>The reference table and the audio elements\<close>

lemma length_pause [simp]: "length (pause a els) = length els"
  by (simp add: pause_def)

lemma length_play [simp]: "length (play a els) = length els"
  by (simp add: play_def)

lemma nth_pause:
  "i < length els \<Longrightarrow> pause a els ! i = (if i = a then (els ! i)\<lparr>paused := True\<rparr> else els ! i)"
  by (simp add: pause_def nth_list_update)

lemma nth_play:
  "i < length els \<Longrightarrow> play a els ! i = (if i = a then (els ! i)\<lparr>paused := False\<rparr> else els ! i)"
  by (simp add: play_def nth_list_update)

lemma pause_others_fold:
  "length (fold (\<lambda>a els'. if a \<noteq> h then pause a els' else els') as els) = length els
   \<and> (\<forall>i < length els.
        fold (\<lambda>a els'. if a \<noteq> h then pause a els' else els') as els ! i =
          (if i \<in> set as \<and> i \<noteq> h then (els ! i)\<lparr>paused := True\<rparr> else els ! i))"
proof (induction as arbitrary: els)
  case Nil
  then show ?case by simp
next
  case (Cons a as)
  show ?case
    using Cons.IH[of "if a \<noteq> h then pause a els else els"]
    by (auto simp: nth_pause)
qed

lemma length_pause_others [simp]: "length (pause_others h refs els) = length els"
  using pause_others_fold[of h "map snd refs" els] by (simp add: pause_others_def)

lemma nth_pause_others:
  "i < length els \<Longrightarrow>
   pause_others h refs els ! i =
     (if i \<in> snd ` set refs \<and> i \<noteq> h then (els ! i)\<lparr>paused := True\<rparr> else els ! i)"
  using pause_others_fold[of h "map snd refs" els] by (simp add: pause_others_def)

lemma refs_ok_initial: "refs_ok initial"
  by (simp add: refs_ok_def initial_def)

lemma map_fst_update:
  "map_of al k = None \<Longrightarrow> map fst (AList.update k v al) = map fst al @ [k]"
  by (induction al) (auto split: if_splits)

lemma map_snd_update:
  "map_of al k = None \<Longrightarrow> map snd (AList.update k v al) = map snd al @ [v]"
  by (induction al) (auto split: if_splits)

lemma refs_ok_create:
  assumes "refs_ok s" "map_of (audioRefs s) c = None"
  shows "refs_ok (s\<lparr>audios := audios s @ [new_Audio f c],
                    audioRefs := AList.update c (length (audios s)) (audioRefs s)\<rparr>)"
proof -
  have notin: "c \<notin> fst ` set (audioRefs s)"
    using assms(2) by (simp add: map_of_eq_None_iff)
  have bound: "\<forall>a \<in> snd ` set (audioRefs s). a < length (audios s)"
    using assms(1) by (simp add: refs_ok_def)
  then have fresh: "length (audios s) \<notin> snd ` set (audioRefs s)" by auto
  have set_snd: "snd ` set (AList.update c (length (audios s)) (audioRefs s))
        = insert (length (audios s)) (snd ` set (audioRefs s))"
  proof -
    have "set (map snd (AList.update c (length (audios s)) (audioRefs s)))
            = set (map snd (audioRefs s) @ [length (audios s)])"
      by (simp only: map_snd_update[OF assms(2)])
    then show ?thesis by simp
  qed
  show ?thesis
    unfolding refs_ok_def
    using assms(1) notin fresh bound
    by (auto simp: refs_ok_def map_fst_update[OF assms(2)] map_snd_update[OF assms(2)]
        set_snd nth_append new_Audio_def)
qed

lemma refs_ok_handlePlayPause: "refs_ok s \<Longrightarrow> refs_ok (handlePlayPause c s)"
proof -
  assume ok: "refs_ok s"
  show ?thesis
  proof (cases "getAudioFile c (user_id (selectedUser s)) = ''''")
    case True
    then show ?thesis using ok by (simp add: handlePlayPause_def)
  next
    case nonempty: False
    show ?thesis
    proof (cases "map_of (audioRefs s) c")
      case None
      then show ?thesis
        using nonempty refs_ok_create[OF ok None] by (simp add: handlePlayPause_def Let_def)
    next
      case (Some h)
      have bound: "\<forall>a \<in> snd ` set (audioRefs s). a < length (audios s)"
        using ok by (simp add: refs_ok_def)
      show ?thesis
        using ok nonempty Some bound
        by (auto simp: handlePlayPause_def Let_def refs_ok_def nth_pause nth_play nth_pause_others)
    qed
  qed
qed

lemma refs_ok_frame:
  assumes "refs_ok s" "audioRefs s' = audioRefs s" "length (audios s') = length (audios s)"
    and "\<And>i. i < length (audios s) \<Longrightarrow> \<not> paused (audios s' ! i) \<Longrightarrow> \<not> paused (audios s ! i)"
  shows "refs_ok s'"
proof -
  have b: "\<forall>a \<in> snd ` set (audioRefs s). a < length (audios s)"
    using assms(1) by (simp add: refs_ok_def)
  have u: "\<forall>a \<in> snd ` set (audioRefs s). \<forall>b \<in> snd ` set (audioRefs s).
           \<not> paused (audios s ! a) \<and> \<not> paused (audios s ! b) \<longrightarrow> a = b"
    using assms(1) by (simp add: refs_ok_def)
  have u': "\<forall>a \<in> snd ` set (audioRefs s). \<forall>b \<in> snd ` set (audioRefs s).
           \<not> paused (audios s' ! a) \<and> \<not> paused (audios s' ! b) \<longrightarrow> a = b"
    using b u assms(4) by blast
  show ?thesis
    unfolding refs_ok_def assms(2) assms(3)
    using assms(1) b u' by (simp add: refs_ok_def)
qed

lemma paused_update_other:
  assumes "paused (f (els ! a)) = paused (els ! a)"
  shows "paused (els[a := f (els ! a)] ! i) = paused (els ! i)"
proof (cases "a < length els")
  case True
  then show ?thesis using assms by (cases "a = i") simp_all
next
  case False
  then show ?thesis by (simp add: list_update_beyond)
qed

lemma handleSeek_frame:
  "audioRefs (handleSeek rnd c ev s) = audioRefs s
   \<and> length (audios (handleSeek rnd c ev s)) = length (audios s)
   \<and> (\<forall>i < length (audios s). paused (audios (handleSeek rnd c ev s) ! i) = paused (audios s ! i))"
  by (simp add: handleSeek_def Let_def set_currentTime_def
        paused_update_other[where f = "\<lambda>e. e\<lparr>currentTime := t\<rparr>" for t]
      split: option.splits number.splits)

lemma refs_ok_handleSeek: "refs_ok s \<Longrightarrow> refs_ok (handleSeek rnd c ev s)"
  by (rule refs_ok_frame[of s]) (simp_all add: handleSeek_frame)

lemma loadProtocols_settled_cases:
  assumes "loadProtocols_settled server u fo jo s = Some s'"
  shows "s' = load_failed s \<or> (\<exists>ds. s' = s\<lparr>protocols := ds, loading := False\<rparr>)"
proof (cases "promise_all [None, None, None] (settle_in fo (map server (fetch_urls u)))")
  case None
  then show ?thesis using assms by (simp add: loadProtocols_settled_def)
next
  case (Some r)
  show ?thesis
  proof (cases r)
    case Rejected
    then show ?thesis using assms Some by (simp add: loadProtocols_settled_def)
  next
    case (Fulfilled rs)
    show ?thesis
    proof (cases "\<exists>a b c. rs = [a, b, c]")
      case False
      then have "loadProtocols_settled server u fo jo s = None"
        using Some Fulfilled
        by (auto simp: loadProtocols_settled_def split: list.splits)
      then show ?thesis using assms by simp
    next
      case True
      then obtain a b c where rs: "rs = [a, b, c]" by blast
      show ?thesis
        using assms Some Fulfilled rs
        by (auto simp: loadProtocols_settled_def split: if_splits option.splits settled.splits list.splits)
    qed
  qed
qed

lemma refs_ok_loadProtocols_settled:
  assumes "refs_ok s" "loadProtocols_settled server u fo jo s = Some s'"
  shows "refs_ok s'"
proof (rule refs_ok_frame[OF assms(1)])
  note c = loadProtocols_settled_cases[OF assms(2)]
  show "audioRefs s' = audioRefs s" using c by (auto simp: load_failed_def)
  show "length (audios s') = length (audios s)" using c by (auto simp: load_failed_def)
  show "\<not> paused (audios s ! i)" if "\<not> paused (audios s' ! i)" for i
    using c that by (auto simp: load_failed_def)
qed

lemma refs_ok_step:
  assumes ok: "refs_ok s"
  shows "refs_ok (step rnd server e s)"
proof (cases e)
  case (PlayPause_click c)
  then show ?thesis using ok by (simp add: refs_ok_handlePlayPause)
next
  case (Seek_click c ev)
  then show ?thesis using ok by (simp add: refs_ok_handleSeek)
next
  case (User_click u)
  then show ?thesis
    by (simp add: refs_ok_def selectUser_onClick_def loadProtocols_begin_def)
next
  case UserSelector_click
  then show ?thesis using ok by (simp add: refs_ok_def)
next
  case (Audio_ended a)
  show ?thesis
  proof (cases "a < length (audios s)")
    case True
    show ?thesis
      unfolding Audio_ended
      by (rule refs_ok_frame[OF ok]) (auto simp: True onEnded_def nth_list_update split: if_splits)
  next
    case False
    then show ?thesis using ok Audio_ended by simp
  qed
next
  case (Audio_pause a)
  then show ?thesis using ok by (simp add: refs_ok_def onPause_def)
next
  case (Audio_loadedmetadata a d)
  show ?thesis
  proof (cases "a < length (audios s)")
    case True
    show ?thesis
      unfolding Audio_loadedmetadata
      by (rule refs_ok_frame[OF ok])
         (auto simp: True onLoadedMetadata_def Let_def nth_list_update split: if_splits)
  next
    case False
    then show ?thesis using ok Audio_loadedmetadata by simp
  qed
next
  case (Audio_timeupdate a t)
  show ?thesis
  proof (cases "a < length (audios s)")
    case True
    show ?thesis
      unfolding Audio_timeupdate
      by (rule refs_ok_frame[OF ok])
         (auto simp: True onTimeUpdate_def Let_def nth_list_update split: if_splits)
  next
    case False
    then show ?thesis using ok Audio_timeupdate by simp
  qed
next
  case (Audio_error a)
  then show ?thesis using ok by (simp add: refs_ok_def onError_def)
next
  case (Play_rejected a)
  then show ?thesis using ok by (simp add: refs_ok_def onError_def)
next
  case (Load_settled u fo jo)
  then show ?thesis
    using ok by (auto dest: refs_ok_loadProtocols_settled split: option.splits)
qed

lemma refs_ok_run: "refs_ok s \<Longrightarrow> refs_ok (run rnd server evs s)"
  unfolding run_def by (induction evs arbitrary: s) (simp_all add: refs_ok_step)

lemma all_held_initial: "all_held initial"
  by (simp add: all_held_def initial_def)

lemma all_held_frame:
  assumes "all_held s" "audioRefs s' = audioRefs s" "length (audios s') = length (audios s)"
  shows "all_held s'"
  using assms by (simp add: all_held_def)

lemma set_snd_update:
  assumes "map_of al k = None"
  shows "snd ` set (AList.update k v al) = insert v (snd ` set al)"
proof -
  have "set (map snd (AList.update k v al)) = set (map snd al @ [v])"
    by (simp only: map_snd_update[OF assms])
  then show ?thesis by simp
qed

lemma all_held_handlePlayPause:
  assumes "all_held s"
  shows "all_held (handlePlayPause c s)"
proof (cases "getAudioFile c (user_id (selectedUser s)) = ''''")
  case True
  then show ?thesis using assms by (simp add: handlePlayPause_def)
next
  case nonempty: False
  show ?thesis
  proof (cases "map_of (audioRefs s) c")
    case None
    have "a \<in> insert (length (audios s)) (snd ` set (audioRefs s))"
      if "a < Suc (length (audios s))" for a
      using that assms unfolding all_held_def by (cases "a = length (audios s)") auto
    then show ?thesis
      using nonempty None
      by (simp add: handlePlayPause_def Let_def all_held_def set_snd_update[OF None])
  next
    case (Some h)
    show ?thesis
      by (rule all_held_frame[OF assms]) (simp_all add: handlePlayPause_def Let_def nonempty Some)
  qed
qed

lemma all_held_step:
  assumes held: "all_held s" and "\<not> is_User_click e"
  shows "all_held (step rnd server e s)"
proof (cases e)
  case (PlayPause_click c)
  then show ?thesis using held by (simp add: all_held_handlePlayPause)
next
  case (Seek_click c ev)
  then show ?thesis using all_held_frame[OF held] by (simp add: handleSeek_frame)
next
  case (User_click u)
  then show ?thesis using assms(2) by (simp add: is_User_click_def)
next
  case UserSelector_click
  then show ?thesis using held by (simp add: all_held_def)
next
  case (Audio_ended a)
  then show ?thesis using held by (simp add: all_held_def onEnded_def)
next
  case (Audio_pause a)
  then show ?thesis using held by (simp add: all_held_def onPause_def)
next
  case (Audio_loadedmetadata a d)
  then show ?thesis using held by (simp add: all_held_def onLoadedMetadata_def Let_def)
next
  case (Audio_timeupdate a t)
  then show ?thesis using held by (simp add: all_held_def onTimeUpdate_def Let_def)
next
  case (Audio_error a)
  then show ?thesis using held by (simp add: all_held_def onError_def)
next
  case (Play_rejected a)
  then show ?thesis using held by (simp add: all_held_def onError_def)
next
  case (Load_settled u fo jo)
  show ?thesis
  proof (cases "loadProtocols_settled server u fo jo s")
    case None
    then show ?thesis using held Load_settled by simp
  next
    case (Some s')
    have "all_held s'"
      using loadProtocols_settled_cases[OF Some] held
      by (auto simp: all_held_def load_failed_def)
    then show ?thesis using Some Load_settled by simp
  qed
qed

lemma all_held_run:
  "all_held s \<Longrightarrow> \<forall>e \<in> set evs. \<not> is_User_click e \<Longrightarrow> all_held (run rnd server evs s)"
  unfolding run_def by (induction evs arbitrary: s) (simp_all add: all_held_step)

lemma sounding_at_most_one:
  assumes "refs_ok s" "all_held s"
  shows "length (sounding s) \<le> 1"
proof -
  let ?A = "{i. i < length (audios s) \<and> \<not> paused (audios s ! i)}"
  have fin: "finite ?A" by simp
  have "a = b" if "a \<in> ?A" "b \<in> ?A" for a b
  proof -
    have "a \<in> snd ` set (audioRefs s)" "b \<in> snd ` set (audioRefs s)"
      using that assms(2) by (simp_all add: all_held_def)
    moreover have "\<not> paused (audios s ! a)" "\<not> paused (audios s ! b)"
      using that by simp_all
    ultimately show ?thesis using assms(1) unfolding refs_ok_def by blast
  qed
  then have "card ?A \<le> Suc 0"
    using card_le_Suc0_iff_eq[OF fin] by blast
  then show ?thesis
    by (simp add: sounding_def length_filter_conv_card)
qed

text \<open>
  As long as no user is selected, at most one of all the audio elements created so far
  is not paused: every operation other than the click on a user keeps a single track.
\<close>

lemma single_track_without_user_switch:
  assumes "\<forall>e \<in> set evs. \<not> is_User_click e"
  shows "length (sounding (run rnd server evs initial)) \<le> 1"
  by (rule sounding_at_most_one)
     (simp_all add: refs_ok_run[OF refs_ok_initial] all_held_run[OF all_held_initial assms])

subsection \<open>\<^verbatim>\<open>Promise.all\<close> over three promises\<close>

lemma perm3:
  assumes "distinct xs" "set xs = {0, 1, 2::nat}"
  shows "xs \<in> {[0,1,2],[0,2,1],[1,0,2],[1,2,0],[2,0,1],[2,1,0]}"
proof -
  have len: "length xs = 3" using assms distinct_card[of xs] by simp
  obtain x xs1 where 1: "xs = x # xs1" using len by (cases xs) auto
  obtain y xs2 where 2: "xs1 = y # xs2" using len 1 by (cases xs1) auto
  obtain z xs3 where 3: "xs2 = z # xs3" using len 1 2 by (cases xs2) auto
  have xs: "xs = [x, y, z]" using len 1 2 3 by simp
  have "x \<in> set xs" "y \<in> set xs" "z \<in> set xs" by (simp_all add: xs)
  then have mem: "x \<in> {0,1,2}" "y \<in> {0,1,2}" "z \<in> {0,1,2}" unfolding assms(2) .
  have d: "x \<noteq> y" "x \<noteq> z" "y \<noteq> z" using assms(1) by (simp_all add: xs)
  show ?thesis using mem d unfolding xs by auto
qed


lemma promise_all3_fulfilled:
  assumes "distinct order" "set order = {0, 1, 2}"
  shows "promise_all [None, None, None] (settle_in order [Fulfilled a, Fulfilled b, Fulfilled c])
           = Some (Fulfilled [a, b, c])"
proof -
  have "order \<in> {[0,1,2],[0,2,1],[1,0,2],[1,2,0],[2,0,1],[2,1,0]}"
    using perm3[OF assms] .
  then consider "order = [0,1,2]" | "order = [0,2,1]" | "order = [1,0,2]"
    | "order = [1,2,0]" | "order = [2,0,1]" | "order = [2,1,0]" by blast
  then show ?thesis
    by cases (simp_all add: settle_in_def numeral_2_eq_2)
qed

lemma promise_all3_rejected:
  assumes "distinct order" "set order = {0, 1, 2}" "p0 = Rejected \<or> p1 = Rejected \<or> p2 = Rejected"
  shows "promise_all [None, None, None] (settle_in order [p0, p1, p2]) = Some Rejected"
proof -
  have "order \<in> {[0,1,2],[0,2,1],[1,0,2],[1,2,0],[2,0,1],[2,1,0]}"
    using perm3[OF assms(1,2)] .
  then consider "order = [0,1,2]" | "order = [0,2,1]" | "order = [1,0,2]"
    | "order = [1,2,0]" | "order = [2,0,1]" | "order = [2,1,0]" by blast
  then show ?thesis
    using assms(3)
    by cases (cases p0; cases p1; cases p2; simp add: settle_in_def numeral_2_eq_2)+
qed

subsection \<open>The loader\<close>

lemma loadProtocols_settled_ok:
  assumes "distinct fetchOrder" "set fetchOrder = {0, 1, 2}"
    and "distinct jsonOrder" "set jsonOrder = {0, 1, 2}"
    and "server (''/data/'' @ userId @ ''_supplements.json'') = Fulfilled \<lparr>ok = True, json = Fulfilled D1\<rparr>"
    and "server (''/data/'' @ userId @ ''_nutrition.json'') = Fulfilled \<lparr>ok = True, json = Fulfilled D2\<rparr>"
    and "server (''/data/'' @ userId @ ''_exercise.json'') = Fulfilled \<lparr>ok = True, json = Fulfilled D3\<rparr>"
  shows "loadProtocols_settled server userId fetchOrder jsonOrder s
           = Some (s\<lparr>protocols := [D1, D2, D3], loading := False\<rparr>)"
proof -
  have fetched: "map server (fetch_urls userId) =
      [Fulfilled \<lparr>ok = True, json = Fulfilled D1\<rparr>,
       Fulfilled \<lparr>ok = True, json = Fulfilled D2\<rparr>,
       Fulfilled \<lparr>ok = True, json = Fulfilled D3\<rparr>]"
    using assms(5-7) by (simp add: fetch_urls_def)
  show ?thesis
    by (simp add: loadProtocols_settled_def fetched
          promise_all3_fulfilled[OF assms(1,2)] promise_all3_fulfilled[OF assms(3,4)])
qed

lemma loadProtocols_settled_failed:
  assumes "distinct fetchOrder" "set fetchOrder = {0, 1, 2}"
    and "\<exists>url \<in> set (fetch_urls userId).
           server url = Rejected \<or> (\<exists>r. server url = Fulfilled r \<and> \<not> ok r)"
  shows "loadProtocols_settled server userId fetchOrder jsonOrder s = Some (load_failed s)"
proof -
  define p0 where "p0 = server (''/data/'' @ userId @ ''_supplements.json'')"
  define p1 where "p1 = server (''/data/'' @ userId @ ''_nutrition.json'')"
  define p2 where "p2 = server (''/data/'' @ userId @ ''_exercise.json'')"
  have fetched: "map server (fetch_urls userId) = [p0, p1, p2]"
    by (simp add: fetch_urls_def p0_def p1_def p2_def)
  have bad: "(p0 = Rejected \<or> p1 = Rejected \<or> p2 = Rejected)
      \<or> (\<exists>r0 r1 r2. p0 = Fulfilled r0 \<and> p1 = Fulfilled r1 \<and> p2 = Fulfilled r2
            \<and> (\<not> ok r0 \<or> \<not> ok r1 \<or> \<not> ok r2))"
    using assms(3) unfolding fetch_urls_def p0_def p1_def p2_def
    by (cases "server (''/data/'' @ userId @ ''_supplements.json'')";
        cases "server (''/data/'' @ userId @ ''_nutrition.json'')";
        cases "server (''/data/'' @ userId @ ''_exercise.json'')") auto
  then show ?thesis
  proof
    assume "p0 = Rejected \<or> p1 = Rejected \<or> p2 = Rejected"
    then show ?thesis
      by (simp add: loadProtocols_settled_def fetched promise_all3_rejected[OF assms(1,2)])
  next
    assume "\<exists>r0 r1 r2. p0 = Fulfilled r0 \<and> p1 = Fulfilled r1 \<and> p2 = Fulfilled r2
            \<and> (\<not> ok r0 \<or> \<not> ok r1 \<or> \<not> ok r2)"
    then obtain r0 r1 r2 where "p0 = Fulfilled r0" "p1 = Fulfilled r1" "p2 = Fulfilled r2"
      "\<not> ok r0 \<or> \<not> ok r1 \<or> \<not> ok r2" by blast
    then show ?thesis
      by (simp add: loadProtocols_settled_def fetched promise_all3_fulfilled[OF assms(1,2)])
  qed
qed


subsection \<open>Evaluating the model\<close>

lemmas model_defs =
  run_def initial_def users_def handlePlayPause_def getAudioFile_def new_Audio_def
  pause_def play_def pause_others_def onEnded_def onPause_def onLoadedMetadata_def
  onTimeUpdate_def onError_def handleSeek_def set_currentTime_def selectUser_onClick_def
  loadProtocols_begin_def load_failed_def playing_def sounding_def static_site_def exact_def
  Let_def

lemmas loader_defs =
  loadProtocols_settled_def fetch_urls_def settle_in_def shown_protocols_def numeral_2_eq_2
  example_site_def nik_protocols_def tyler_protocols_def protocol_document_def

section \<open>The claims\<close>

text \<open>
  Claim C1, evaluated on the code. Nik's protocols are loaded and \<open>exercise\<close> is
  started; Tyler is selected and his protocols are loaded; \<open>nutrition\<close> is started.
  The click on Tyler has dropped the element of \<open>exercise\<close> from \<^verbatim>\<open>audioRefs\<close>
  without pausing it, so the pause loop of \<open>handlePlayPause\<close> no longer reaches it:
  two audio elements are not paused at the same time, Nik's \<open>exercise\<close> and Tyler's
  \<open>nutrition\<close>, while the playing flag names \<open>nutrition\<close> alone. The claim has at most
  one track active in every reachable state and names the user switch among the
  operations that keep it so. (Without a click on a user the code does keep a single
  track: \<open>single_track_without_user_switch\<close>.)
\<close>

theorem two_tracks_after_user_switch:
  "map src (sounding (run exact example_site
       [Load_settled ''nik'' [0, 1, 2] [0, 1, 2],
        PlayPause_click ''exercise'', PlayPause_click ''exercise'',
        UserSelector_click, User_click (users ! 1),
        Load_settled ''tyler'' [0, 1, 2] [0, 1, 2],
        PlayPause_click ''nutrition'', PlayPause_click ''nutrition''] initial))
     = [''/data/nik_exercise.mp3'', ''/data/tyler_nutrition.mp3'']
   \<and> playing (run exact example_site
       [Load_settled ''nik'' [0, 1, 2] [0, 1, 2],
        PlayPause_click ''exercise'', PlayPause_click ''exercise'',
        UserSelector_click, User_click (users ! 1),
        Load_settled ''tyler'' [0, 1, 2] [0, 1, 2],
        PlayPause_click ''nutrition'', PlayPause_click ''nutrition''] initial) ''nutrition''
   \<and> \<not> playing (run exact example_site
       [Load_settled ''nik'' [0, 1, 2] [0, 1, 2],
        PlayPause_click ''exercise'', PlayPause_click ''exercise'',
        UserSelector_click, User_click (users ! 1),
        Load_settled ''tyler'' [0, 1, 2] [0, 1, 2],
        PlayPause_click ''nutrition'', PlayPause_click ''nutrition''] initial) ''exercise''
   \<and> shown_protocols (run exact example_site
       [Load_settled ''nik'' [0, 1, 2] [0, 1, 2],
        PlayPause_click ''exercise'', PlayPause_click ''exercise'',
        UserSelector_click, User_click (users ! 1),
        Load_settled ''tyler'' [0, 1, 2] [0, 1, 2],
        PlayPause_click ''nutrition'', PlayPause_click ''nutrition''] initial) = tyler_protocols"
  by (simp add: model_defs loader_defs)

text \<open>
  Claim C2, evaluated on the code. From the first render, the first call of
  \<open>handlePlayPause\<close> for \<open>nutrition\<close> creates the audio element and returns at the
  check of line 229 without starting it: the playing flag stays clear and the element
  stays paused. The second call starts the element and sets the flag. The claim has the
  flag set after the first call and clear after the second.
\<close>

theorem first_toggle_creates_second_plays:
  "\<not> playing (handlePlayPause ''nutrition'' initial) ''nutrition''
   \<and> audioRefs (handlePlayPause ''nutrition'' initial) = [(''nutrition'', 0)]
   \<and> paused (audios (handlePlayPause ''nutrition'' initial) ! 0)
   \<and> playing (handlePlayPause ''nutrition'' (handlePlayPause ''nutrition'' initial)) ''nutrition''
   \<and> \<not> paused (audios (handlePlayPause ''nutrition'' (handlePlayPause ''nutrition'' initial)) ! 0)"
  by (simp add: model_defs)

text \<open>
  Claim C3. The \<^verbatim>\<open>ended\<close> listener of category \<open>c\<close> leaves \<open>audioProgress c\<close> at
  \<open>0\<close> and the playing flag of \<open>c\<close> clear, whatever the progress was; so does the
  \<^verbatim>\<open>ended\<close> event of an element created for \<open>c\<close>. A manual pause (a call of
  \<open>handlePlayPause\<close> for the category that is playing) clears the flag and leaves
  every recorded progress as it was.
\<close>

theorem ended_resets_progress:
  "audioProgress (onEnded c s) c = Some (Fin 0) \<and> \<not> playing (onEnded c s) c
   \<and> (a < length (audios s) \<and> listens_for (audios s ! a) = c \<longrightarrow>
        audioProgress (step rnd server (Audio_ended a) s) c = Some (Fin 0)
        \<and> \<not> playing (step rnd server (Audio_ended a) s) c)
   \<and> (c \<in> {''supplements'', ''nutrition'', ''exercise''} \<and> playing s c
        \<and> map_of (audioRefs s) c = Some a \<longrightarrow>
        \<not> playing (handlePlayPause c s) c
        \<and> audioProgress (handlePlayPause c s) = audioProgress s)"
  by (auto simp: onEnded_def playing_def handlePlayPause_def getAudioFile_def Let_def)

theorem ended_resets_progress_witness:
  "audioProgress (run exact static_site [PlayPause_click ''exercise'', PlayPause_click ''exercise'',
       Audio_loadedmetadata 0 (Fin 200), Audio_timeupdate 0 194] initial) ''exercise'' = Some (Fin 97)
   \<and> playing (run exact static_site [PlayPause_click ''exercise'', PlayPause_click ''exercise'',
       Audio_loadedmetadata 0 (Fin 200), Audio_timeupdate 0 194] initial) ''exercise''
   \<and> audioProgress (step exact static_site (Audio_ended 0)
        (run exact static_site [PlayPause_click ''exercise'', PlayPause_click ''exercise'',
           Audio_loadedmetadata 0 (Fin 200), Audio_timeupdate 0 194] initial)) ''exercise'' = Some (Fin 0)
   \<and> \<not> playing (step exact static_site (Audio_ended 0)
        (run exact static_site [PlayPause_click ''exercise'', PlayPause_click ''exercise'',
           Audio_loadedmetadata 0 (Fin 200), Audio_timeupdate 0 194] initial)) ''exercise''
   \<and> \<not> playing (handlePlayPause ''exercise''
        (run exact static_site [PlayPause_click ''exercise'', PlayPause_click ''exercise'',
           Audio_loadedmetadata 0 (Fin 200), Audio_timeupdate 0 194] initial)) ''exercise''
   \<and> audioProgress (handlePlayPause ''exercise''
        (run exact static_site [PlayPause_click ''exercise'', PlayPause_click ''exercise'',
           Audio_loadedmetadata 0 (Fin 200), Audio_timeupdate 0 194] initial)) ''exercise'' = Some (Fin 97)"
  using ended_resets_progress [of "''exercise''"
      "run exact static_site [PlayPause_click ''exercise'', PlayPause_click ''exercise'',
         Audio_loadedmetadata 0 (Fin 200), Audio_timeupdate 0 194] initial" 0 exact static_site]
  by (simp add: model_defs)

text \<open>
  Claim C4 fails as stated: a duration can be known and the seek still change nothing.
  With the duration \<^verbatim>\<open>+Infinity\<close> (what an element reports for a stream without an
  end) the guard of line 271 lets the click through, \<^verbatim>\<open>newTime\<close> is
  \<^verbatim>\<open>+Infinity\<close>, the assignment to \<^verbatim>\<open>currentTime\<close> throws, the \<^verbatim>\<open>catch\<close> block
  logs, and neither the position nor the progress is set.
\<close>

theorem seek_infinite_duration_counterexample:
  "truthy (duration (audios (run exact static_site
       [PlayPause_click ''exercise'', PlayPause_click ''exercise'',
        Audio_loadedmetadata 0 (Inf True)] initial) ! 0))
   \<and> handleSeek exact ''exercise'' \<lparr>clientX = 60, rect_left = 10, rect_width = 100\<rparr>
        (run exact static_site
           [PlayPause_click ''exercise'', PlayPause_click ''exercise'',
            Audio_loadedmetadata 0 (Inf True)] initial)
      = run exact static_site
           [PlayPause_click ''exercise'', PlayPause_click ''exercise'',
            Audio_loadedmetadata 0 (Inf True)] initial
   \<and> audioProgress (handleSeek exact ''exercise'' \<lparr>clientX = 60, rect_left = 10, rect_width = 100\<rparr>
        (run exact static_site
           [PlayPause_click ''exercise'', PlayPause_click ''exercise'',
            Audio_loadedmetadata 0 (Inf True)] initial)) ''exercise'' = None"
  by (simp add: model_defs)

text \<open>
  Claim C4 as amended. Let \<open>f\<close> be the fraction of the click as the code computes it,
  \<open>seek_fraction\<close>, in the arithmetic of doubles, whatever its rounding \<open>rnd\<close>.
  When no audio element exists for \<open>c\<close>, or its duration is not known
  (\<^verbatim>\<open>audio.duration\<close> is \<open>NaN\<close>, or \<open>0\<close>, which the guard of line 271 treats alike),
  \<open>handleSeek\<close> returns the state unchanged. When the duration is known and the
  product of \<open>f\<close> and the duration is a finite double \<open>t\<close>, \<open>handleSeek\<close> sets the
  element's \<open>currentTime\<close> to \<open>t\<close> and \<open>audioProgress c\<close> to the product of \<open>f\<close> and
  \<open>100\<close>, both in the state it returns. When the duration is known and that product
  is not finite (an infinite duration, a bar of width \<open>0\<close>, an overflow),
  \<open>handleSeek\<close> returns the state unchanged.
\<close>

theorem handleSeek_spec:
  "(map_of (audioRefs s) c = None
      \<or> (\<exists>a. map_of (audioRefs s) c = Some a \<and> \<not> truthy (duration (audios s ! a)))
    \<longrightarrow> handleSeek rnd c ev s = s)
   \<and> (map_of (audioRefs s) c = Some a \<and> a < length (audios s)
        \<and> truthy (duration (audios s ! a))
        \<and> js_mul rnd (seek_fraction rnd ev) (duration (audios s ! a)) = Fin t \<longrightarrow>
       currentTime (audios (handleSeek rnd c ev s) ! a) = t
       \<and> audioProgress (handleSeek rnd c ev s) c = Some (js_mul rnd (seek_fraction rnd ev) (Fin 100)))
   \<and> (map_of (audioRefs s) c = Some a \<and> truthy (duration (audios s ! a))
        \<and> (\<forall>t. js_mul rnd (seek_fraction rnd ev) (duration (audios s ! a)) \<noteq> Fin t) \<longrightarrow>
       handleSeek rnd c ev s = s)"
  by (auto simp: handleSeek_def Let_def set_currentTime_def seek_fraction_def split: number.splits)

theorem handleSeek_spec_witness:
  "handleSeek exact ''exercise'' \<lparr>clientX = 60, rect_left = 10, rect_width = 100\<rparr>
       (run exact static_site [PlayPause_click ''exercise'', PlayPause_click ''exercise''] initial)
     = run exact static_site [PlayPause_click ''exercise'', PlayPause_click ''exercise''] initial
   \<and> seek_fraction exact \<lparr>clientX = 60, rect_left = 10, rect_width = 100\<rparr> = Fin (1 / 2)
   \<and> currentTime (audios (handleSeek exact ''exercise'' \<lparr>clientX = 60, rect_left = 10, rect_width = 100\<rparr>
        (run exact static_site [PlayPause_click ''exercise'', PlayPause_click ''exercise'',
           Audio_loadedmetadata 0 (Fin 200)] initial)) ! 0) = 100
   \<and> audioProgress (handleSeek exact ''exercise'' \<lparr>clientX = 60, rect_left = 10, rect_width = 100\<rparr>
        (run exact static_site [PlayPause_click ''exercise'', PlayPause_click ''exercise'',
           Audio_loadedmetadata 0 (Fin 200)] initial)) ''exercise'' = Some (Fin 50)
   \<and> handleSeek exact ''exercise'' \<lparr>clientX = 60, rect_left = 10, rect_width = 0\<rparr>
        (run exact static_site [PlayPause_click ''exercise'', PlayPause_click ''exercise'',
           Audio_loadedmetadata 0 (Fin 200)] initial)
      = run exact static_site [PlayPause_click ''exercise'', PlayPause_click ''exercise'',
           Audio_loadedmetadata 0 (Fin 200)] initial"
  using
    handleSeek_spec [of
      "run exact static_site [PlayPause_click ''exercise'', PlayPause_click ''exercise''] initial"
      "''exercise''" exact "\<lparr>clientX = 60, rect_left = 10, rect_width = 100\<rparr>" 0 100]
    handleSeek_spec [of
      "run exact static_site [PlayPause_click ''exercise'', PlayPause_click ''exercise'',
         Audio_loadedmetadata 0 (Fin 200)] initial"
      "''exercise''" exact "\<lparr>clientX = 60, rect_left = 10, rect_width = 100\<rparr>" 0 100]
    handleSeek_spec [of
      "run exact static_site [PlayPause_click ''exercise'', PlayPause_click ''exercise'',
         Audio_loadedmetadata 0 (Fin 200)] initial"
      "''exercise''" exact "\<lparr>clientX = 60, rect_left = 10, rect_width = 0\<rparr>" 0 100]
  by (simp add: model_defs seek_fraction_def)

text \<open>
  Claim C5. When the three fetches for a user succeed (each response is \<^verbatim>\<open>ok\<close>
  and its body parses), then in whatever order the fetches settle, and in whatever
  order the \<^verbatim>\<open>json()\<close> calls settle, the load ends with
  \<open>protocols = [supplements, nutrition, exercise]\<close> and \<open>loading = False\<close>.
\<close>

theorem loadProtocols_fixed_order:
  assumes "distinct fetchOrder" "set fetchOrder = {0, 1, 2}"
    and "distinct jsonOrder" "set jsonOrder = {0, 1, 2}"
    and "server (''/data/'' @ userId @ ''_supplements.json'') = Fulfilled \<lparr>ok = True, json = Fulfilled D1\<rparr>"
    and "server (''/data/'' @ userId @ ''_nutrition.json'') = Fulfilled \<lparr>ok = True, json = Fulfilled D2\<rparr>"
    and "server (''/data/'' @ userId @ ''_exercise.json'') = Fulfilled \<lparr>ok = True, json = Fulfilled D3\<rparr>"
  shows "\<exists>s'. loadProtocols_settled server userId fetchOrder jsonOrder s = Some s'
           \<and> protocols s' = [D1, D2, D3] \<and> \<not> loading s' \<and> error s' = error s"
  using loadProtocols_settled_ok[OF assms] by simp

theorem loadProtocols_fixed_order_witness:
  "\<exists>s'. loadProtocols_settled static_site ''nik'' [2, 0, 1] [1, 2, 0] initial = Some s'
      \<and> protocols s' = [JStr ''/data/nik_supplements.json'', JStr ''/data/nik_nutrition.json'',
                         JStr ''/data/nik_exercise.json'']
      \<and> \<not> loading s' \<and> error s' = error initial"
proof -
  have d: "distinct [2, 0, 1::nat]" "distinct [1, 2, 0::nat]" by simp_all
  have p: "set [2, 0, 1::nat] = {0, 1, 2}" "set [1, 2, 0::nat] = {0, 1, 2}" by auto
  show ?thesis
    by (rule loadProtocols_fixed_order [OF d(1) p(1) d(2) p(2)]) (simp_all add: static_site_def)
qed

text \<open>
  Claim C6. When one of the three fetches for a user rejects or answers with a
  response that is not \<^verbatim>\<open>ok\<close>, the load ends in the \<^verbatim>\<open>catch\<close> block, in whatever
  order the fetches settle: \<open>error\<close> is set to the load-failure message, \<open>protocols\<close>
  is left as it was (no document of this load is stored), and no protocol card is
  shown.
\<close>

theorem loadProtocols_all_or_nothing:
  assumes "distinct fetchOrder" "set fetchOrder = {0, 1, 2}"
    and "\<exists>url \<in> set (fetch_urls userId).
           server url = Rejected \<or> (\<exists>r. server url = Fulfilled r \<and> \<not> ok r)"
  shows "\<exists>s'. loadProtocols_settled server userId fetchOrder jsonOrder s = Some s'
           \<and> error s' = Some ''Failed to load protocol data. Please refresh the page.''
           \<and> \<not> loading s' \<and> protocols s' = protocols s \<and> shown_protocols s' = []"
  using loadProtocols_settled_failed[OF assms]
  by (simp add: load_failed_def shown_protocols_def)

theorem loadProtocols_all_or_nothing_witness:
  "\<exists>s'. loadProtocols_settled
          (static_site(''/data/nik_nutrition.json'' := Fulfilled \<lparr>ok = False, json = Rejected\<rparr>))
          ''nik'' [2, 0, 1] [0, 1, 2] initial = Some s'
      \<and> error s' = Some ''Failed to load protocol data. Please refresh the page.''
      \<and> \<not> loading s' \<and> protocols s' = protocols initial \<and> shown_protocols s' = []"
proof -
  have d: "distinct [2, 0, 1::nat]" by simp
  have p: "set [2, 0, 1::nat] = {0, 1, 2}" by auto
  show ?thesis
    by (rule loadProtocols_all_or_nothing [OF d p]) (simp add: fetch_urls_def)
qed

text \<open>
  Claim C7, evaluated on the code. With \<open>exercise\<close> playing for Nik, the click on
  Tyler in the user selector clears \<open>playingAudio\<close>, \<open>audioRefs\<close>, \<open>audioProgress\<close>
  and \<open>audioDuration\<close>, and calls \<^verbatim>\<open>pause()\<close> on nothing: the element of
  \<open>exercise\<close> is dropped from the table while it is still not paused. The claim has
  every playing resource stopped before it is discarded.
\<close>

theorem user_switch_leaves_audio_playing:
  "playing (run exact static_site [PlayPause_click ''exercise'', PlayPause_click ''exercise''] initial) ''exercise''
   \<and> \<not> paused (audios (run exact static_site
          [PlayPause_click ''exercise'', PlayPause_click ''exercise''] initial) ! 0)
   \<and> \<not> playing (run exact static_site [PlayPause_click ''exercise'', PlayPause_click ''exercise'',
          User_click (users ! 1)] initial) ''exercise''
   \<and> audioRefs (run exact static_site [PlayPause_click ''exercise'', PlayPause_click ''exercise'',
          User_click (users ! 1)] initial) = []
   \<and> audioProgress (run exact static_site [PlayPause_click ''exercise'', PlayPause_click ''exercise'',
          User_click (users ! 1)] initial) = Map.empty
   \<and> audioDuration (run exact static_site [PlayPause_click ''exercise'', PlayPause_click ''exercise'',
          User_click (users ! 1)] initial) = Map.empty
   \<and> length (audios (run exact static_site [PlayPause_click ''exercise'', PlayPause_click ''exercise'',
          User_click (users ! 1)] initial)) = 1
   \<and> \<not> paused (audios (run exact static_site [PlayPause_click ''exercise'', PlayPause_click ''exercise'',
          User_click (users ! 1)] initial) ! 0)"
  by (simp add: model_defs)

text \<open>
  Claim C8, evaluated on the code. The first render starts the load for Nik. The
  selector is opened and Tyler is selected, which starts the load for Tyler. Tyler's
  load settles first and his three protocols are shown; then Nik's load settles, and
  \<^verbatim>\<open>setProtocols\<close> at line 178 stores its documents without looking at the selected
  user: with Tyler selected, no load pending and no error, the cards shown are the three
  protocols of Nik. The claim has a result that arrives after the switch never applied.
\<close>

theorem stale_load_shown_for_new_user:
  "shown_protocols (run exact example_site
       [UserSelector_click, User_click (users ! 1),
        Load_settled ''tyler'' [0, 1, 2] [0, 1, 2]] initial) = tyler_protocols
   \<and> user_name (selectedUser (run exact example_site
       [UserSelector_click, User_click (users ! 1),
        Load_settled ''tyler'' [0, 1, 2] [0, 1, 2],
        Load_settled ''nik'' [0, 1, 2] [0, 1, 2]] initial)) = ''Tyler''
   \<and> \<not> loading (run exact example_site
       [UserSelector_click, User_click (users ! 1),
        Load_settled ''tyler'' [0, 1, 2] [0, 1, 2],
        Load_settled ''nik'' [0, 1, 2] [0, 1, 2]] initial)
   \<and> error (run exact example_site
       [UserSelector_click, User_click (users ! 1),
        Load_settled ''tyler'' [0, 1, 2] [0, 1, 2],
        Load_settled ''nik'' [0, 1, 2] [0, 1, 2]] initial) = None
   \<and> shown_protocols (run exact example_site
       [UserSelector_click, User_click (users ! 1),
        Load_settled ''tyler'' [0, 1, 2] [0, 1, 2],
        Load_settled ''nik'' [0, 1, 2] [0, 1, 2]] initial) = nik_protocols"
  by (simp add: model_defs loader_defs)



text \<open>
  Claim C10. For a category string other than \<open>exercise\<close>, \<open>nutrition\<close> and
  \<open>supplements\<close>, \<open>getAudioFile\<close> returns the empty string and \<open>handlePlayPause\<close>
  returns the state it was given: no audio element is created and no cell changes.
\<close>

theorem handlePlayPause_unknown_category:
  assumes "c \<notin> {''supplements'', ''nutrition'', ''exercise''}"
  shows "getAudioFile c u = '''' \<and> handlePlayPause c s = s"
  using assms by (simp add: handlePlayPause_def getAudioFile_def)

theorem handlePlayPause_unknown_category_witness:
  "''sleep'' \<notin> {''supplements'', ''nutrition'', ''exercise''}
   \<and> getAudioFile ''sleep'' ''nik'' = ''''
   \<and> handlePlayPause ''sleep'' initial = initial"
  using handlePlayPause_unknown_category [of "''sleep''" "''nik''" initial] by simp

end
